theory Spec2Isabelle
  imports Complex_Main "HOL-Library.Char_ord" "HOL-Library.List_Lexorder" "HOL-Library.AList"
begin

section \<open>Python values used by stock_tracker.py\<close>

subsection \<open>Floats\<close>

text \<open>
  A Python float is an IEEE 754 double: a finite value (a rational number that a double
  can hold), one of the two infinities, or a NaN.  The sign of zero is not modelled: the
  program only compares floats and tests them for truth, and there \<open>-0.0\<close> and
  \<open>0.0\<close> behave alike.  The type also has finite values that no double holds; what is
  proved for every value of the type holds for the doubles among them.
\<close>

datatype pyfloat = Finite rat | PosInf | NegInf | NaN

text \<open>\<open>int.bit_length\<close>: the number of binary digits of a positive integer.\<close>

function bit_length :: "int \<Rightarrow> int" where
  "bit_length n = (if n \<le> 0 then 0 else 1 + bit_length (n div 2))"
  by pat_completeness auto
termination
  by (relation "measure nat") auto

declare bit_length.simps [simp del]

definition scale2 :: "int \<Rightarrow> int \<Rightarrow> int" where
  "scale2 n k = n * 2 ^ nat k"

text \<open>The quotient \<open>n / d\<close> (with \<open>0 < d\<close>) rounded to the nearest integer, ties to even.\<close>

definition round_ratio :: "int \<Rightarrow> int \<Rightarrow> int" where
  "round_ratio n d =
     (let f = n div d; r = n mod d in
      if 2 * r < d then f
      else if d < 2 * r then f + 1
      else if even f then f else f + 1)"

text \<open>
  Rounding of an exact result to a double (round to nearest, ties to even): 53 significant
  bits for a binary exponent \<open>e\<close> from \<open>-1022\<close> to \<open>1023\<close>, multiples of
  \<open>2 ^ -1074\<close> below that (subnormal numbers), an infinity from \<open>2 ^ 1024\<close> on.
\<close>

definition round_double :: "rat \<Rightarrow> pyfloat" where
  "round_double q =
     (let (a, b) = quotient_of \<bar>q\<bar> in
      if a = 0 then Finite 0
      else
        let e0 = bit_length a - bit_length b;
            e1 = (if (if 0 \<le> e0 then scale2 b e0 \<le> a else b \<le> scale2 a (- e0))
                  then e0 else e0 - 1);
            e = max e1 (- 1022);
            k = e - 52;
            m = (if 0 \<le> k then round_ratio a (scale2 b k) else round_ratio (scale2 a (- k)) b)
        in if 1024 \<le> e \<or> (e = 1023 \<and> m = 2 ^ 53)
           then (if 0 < q then PosInf else NegInf)
           else let r = (if 0 \<le> k then Fract (scale2 m k) 1 else Fract m (scale2 1 (- k)))
                in Finite (if 0 < q then r else - r))"

text \<open>Comparisons: every comparison with a NaN is false.\<close>

fun flt :: "pyfloat \<Rightarrow> pyfloat \<Rightarrow> bool" where
  "flt (Finite a) (Finite b) = (a < b)"
| "flt (Finite a) PosInf = True"
| "flt NegInf (Finite b) = True"
| "flt NegInf PosInf = True"
| "flt _ _ = False"

definition feq :: "pyfloat \<Rightarrow> pyfloat \<Rightarrow> bool" where
  "feq x y = (x \<noteq> NaN \<and> x = y)"

definition fle :: "pyfloat \<Rightarrow> pyfloat \<Rightarrow> bool" where
  "fle x y = (flt x y \<or> feq x y)"

definition fgt :: "pyfloat \<Rightarrow> pyfloat \<Rightarrow> bool" where
  "fgt x y = flt y x"

text \<open>Truth value of a float: false for zero only.\<close>

definition float_truthy :: "pyfloat \<Rightarrow> bool" where
  "float_truthy x = (x \<noteq> Finite 0)"

fun fsign :: "pyfloat \<Rightarrow> int" where
  "fsign (Finite a) = (if 0 < a then 1 else if a < 0 then - 1 else 0)"
| "fsign PosInf = 1"
| "fsign NegInf = - 1"
| "fsign NaN = 0"

fun fneg :: "pyfloat \<Rightarrow> pyfloat" where
  "fneg (Finite a) = Finite (- a)"
| "fneg PosInf = NegInf"
| "fneg NegInf = PosInf"
| "fneg NaN = NaN"

text \<open>\<open>x * y\<close>\<close>

definition fmul :: "pyfloat \<Rightarrow> pyfloat \<Rightarrow> pyfloat" where
  "fmul x y =
     (case (x, y) of
        (Finite a, Finite b) \<Rightarrow> round_double (a * b)
      | _ \<Rightarrow>
          if x = NaN \<or> y = NaN \<or> fsign x * fsign y = 0 then NaN
          else if 0 < fsign x * fsign y then PosInf else NegInf)"

text \<open>\<open>x - y\<close>\<close>

definition fsub :: "pyfloat \<Rightarrow> pyfloat \<Rightarrow> pyfloat" where
  "fsub x y =
     (case (x, y) of
        (Finite a, Finite b) \<Rightarrow> round_double (a - b)
      | (Finite a, _) \<Rightarrow> fneg y
      | (_, Finite b) \<Rightarrow> x
      | _ \<Rightarrow> if x = NaN \<or> y = NaN \<or> x = y then NaN else x)"

text \<open>\<open>x / 100.0\<close>, the only division of the program (the divisor is never zero).\<close>

definition fdiv100 :: "pyfloat \<Rightarrow> pyfloat" where
  "fdiv100 x = (case x of Finite a \<Rightarrow> round_double (a / 100) | _ \<Rightarrow> x)"

subsection \<open>Exceptions\<close>

datatype pyerror =
    ValueError string
  | TypeError
  | OverflowError
  | AttributeError
  | FileNotFoundError
  | ProviderError string
  | RequestException string

text \<open>
  \<open>float(n)\<close> for a Python int: the nearest double, and \<open>OverflowError\<close> when
  that is out of range.
\<close>

definition float_of_int :: "int \<Rightarrow> pyerror + pyfloat" where
  "float_of_int n =
     (case round_double (of_int n) of
        Finite r \<Rightarrow> Inr (Finite r)
      | _ \<Rightarrow> Inl OverflowError)"

subsection \<open>Strings\<close>

text \<open>
  A Python string is modelled by the list of its characters, a character by its code point:
  the type holds the code points below 256, and a string with a character beyond them is
  outside the model.  \<open>ascii s\<close>: every character of \<open>s\<close> is below 128.
\<close>

definition ascii :: "string \<Rightarrow> bool" where
  "ascii s = list_all (\<lambda>c. (of_char c :: nat) < 128) s"

text \<open>
  \<open>str.strip()\<close> removes the leading and the trailing white space.  Below 256 the
  characters with \<open>str.isspace()\<close> are 9 to 13, 28 to 32, 133 and 160.
\<close>

definition is_space :: "char \<Rightarrow> bool" where
  "is_space c =
     (let n = (of_char c :: nat)
      in (9 \<le> n \<and> n \<le> 13) \<or> (28 \<le> n \<and> n \<le> 32) \<or> n = 133 \<or> n = 160)"

definition strip :: "string \<Rightarrow> string" where
  "strip s = rev (dropWhile is_space (rev (dropWhile is_space s)))"

text \<open>
  \<open>str.upper()\<close>, character by character: \<open>a..z\<close> and the letters 224 to 254 (but
  247, the division sign) move down by 32, the sharp s (223) becomes \<open>SS\<close>, every
  other character stays.  Two characters are not covered: the uppercase forms of 181 and
  255 are beyond 255.  They are not ASCII, and what is stated of \<open>upper\<close> on strings
  that are not given assumes \<open>ascii\<close>.
\<close>

definition upper_char :: "char \<Rightarrow> string" where
  "upper_char c =
     (let n = (of_char c :: nat)
      in if (97 \<le> n \<and> n \<le> 122) \<or> (224 \<le> n \<and> n \<le> 254 \<and> n \<noteq> 247)
         then [char_of (n - 32)]
         else if n = 223 then ''SS''
         else [c])"

definition upper :: "string \<Rightarrow> string" where
  "upper s = concat (map upper_char s)"

definition lower_char :: "char \<Rightarrow> char" where
  "lower_char c =
     (let n = (of_char c :: nat) in if 65 \<le> n \<and> n \<le> 90 then char_of (n + 32) else c)"

definition lower :: "string \<Rightarrow> string" where
  "lower s = map lower_char s"

subsection \<open>\<open>float(s)\<close> for a string\<close>

text \<open>
  The grammar of the builtin: optional white space around an optional sign followed by
  \<open>inf\<close>, \<open>infinity\<close> or \<open>nan\<close> (in any case), or by a decimal number with an
  optional fraction and an optional exponent; single underscores may separate digits.
  The white space that \<open>float\<close> skips is not that of \<open>str.strip()\<close>: of the
  characters below 128 only 9 to 13 and 32 (the characters 28 to 31 are kept, and make the
  string invalid), beyond them 133 and 160.
\<close>

definition is_float_space :: "char \<Rightarrow> bool" where
  "is_float_space c =
     (let n = (of_char c :: nat) in (9 \<le> n \<and> n \<le> 13) \<or> n = 32 \<or> n = 133 \<or> n = 160)"

definition float_strip :: "string \<Rightarrow> string" where
  "float_strip s = rev (dropWhile is_float_space (rev (dropWhile is_float_space s)))"

definition is_digit :: "char \<Rightarrow> bool" where
  "is_digit c = (let n = (of_char c :: nat) in 48 \<le> n \<and> n \<le> 57)"

definition digit_value :: "char \<Rightarrow> int" where
  "digit_value c = int (of_char c) - 48"

text \<open>The longest leading run of digits (underscores dropped), and what follows it.\<close>

fun take_digits :: "string \<Rightarrow> string \<times> string" where
  "take_digits [] = ([], [])"
| "take_digits [c] = (if is_digit c then ([c], []) else ([], [c]))"
| "take_digits (c # u # cs) =
     (if \<not> is_digit c then ([], c # u # cs)
      else if u = CHR ''_'' then
        (case cs of
           [] \<Rightarrow> ([c], u # cs)
         | d # _ \<Rightarrow>
             if is_digit d then (let (ds, r) = take_digits cs in (c # ds, r))
             else ([c], u # cs))
      else (let (ds, r) = take_digits (u # cs) in (c # ds, r)))"

definition decimal_of :: "string \<Rightarrow> int" where
  "decimal_of ds = foldl (\<lambda>n c. 10 * n + digit_value c) 0 ds"

definition pow10 :: "int \<Rightarrow> rat" where
  "pow10 e = (if 0 \<le> e then 10 ^ nat e else 1 / 10 ^ nat (- e))"

definition parse_exponent :: "string \<Rightarrow> int option" where
  "parse_exponent s =
     (case s of
        [] \<Rightarrow> Some 0
      | c # r \<Rightarrow>
          if c = CHR ''e'' \<or> c = CHR ''E'' then
            (let (neg, r') =
                   (case r of
                      [] \<Rightarrow> (False, r)
                    | g # t \<Rightarrow>
                        if g = CHR ''-'' then (True, t)
                        else if g = CHR ''+'' then (False, t) else (False, r));
                 (ds, rest) = take_digits r'
             in if ds = [] \<or> rest \<noteq> [] then None
                else Some (if neg then - decimal_of ds else decimal_of ds))
          else None)"

definition parse_unsigned :: "string \<Rightarrow> pyfloat option" where
  "parse_unsigned s =
     (if lower s = ''inf'' \<or> lower s = ''infinity'' then Some PosInf
      else if lower s = ''nan'' then Some NaN
      else
        let (ip, r1) = take_digits s;
            (fp, r2) =
              (case r1 of
                 [] \<Rightarrow> ([], [])
               | c # r \<Rightarrow> if c = CHR ''.'' then take_digits r else ([], r1))
        in if ip = [] \<and> fp = [] then None
           else
             (case parse_exponent r2 of
                None \<Rightarrow> None
              | Some e \<Rightarrow>
                  Some (round_double
                    (of_int (decimal_of (ip @ fp)) * pow10 (e - int (length fp))))))"

definition float_of_string :: "string \<Rightarrow> pyfloat option" where
  "float_of_string s =
     (case float_strip s of
        [] \<Rightarrow> None
      | c # r \<Rightarrow>
          if c = CHR ''-'' then map_option fneg (parse_unsigned r)
          else if c = CHR ''+'' then parse_unsigned r
          else parse_unsigned (c # r))"

subsection \<open>JSON documents as \<open>json.loads\<close> returns them\<close>

text \<open>
  A JSON object is loaded as a \<open>dict\<close>: the list of its items in insertion order, the
  keys pairwise different.  A number is loaded as an \<open>int\<close> or as a \<open>float\<close>.
\<close>

datatype json =
    JNull
  | JBool bool
  | JInt int
  | JFloat pyfloat
  | JString string
  | JArray "json list"
  | JObject "(string \<times> json) list"

text \<open>The builtin \<open>float(value)\<close> on such a value.\<close>

fun py_float :: "json \<Rightarrow> pyerror + pyfloat" where
  "py_float JNull = Inl TypeError"
| "py_float (JBool b) = Inr (Finite (if b then 1 else 0))"
| "py_float (JInt n) = float_of_int n"
| "py_float (JFloat f) = Inr f"
| "py_float (JString s) =
     (case float_of_string s of
        None \<Rightarrow> Inl (ValueError ''could not convert string to float'')
      | Some f \<Rightarrow> Inr f)"
| "py_float (JArray xs) = Inl TypeError"
| "py_float (JObject kvs) = Inl TypeError"

subsection \<open>Dictionaries and files\<close>

text \<open>
  A \<open>dict\<close> keeps its items in insertion order: assigning to a key that is present
  replaces the value in place, assigning to a new key appends the item.
\<close>

type_synonym 'v dict = "(string \<times> 'v) list"

definition dict_get :: "'v dict \<Rightarrow> string \<Rightarrow> 'v option" where
  "dict_get d k = map_of d k"

definition dict_set :: "string \<Rightarrow> 'v \<Rightarrow> 'v dict \<Rightarrow> 'v dict" where
  "dict_set k v d = AList.update k v d"

text \<open>
  A file holds a JSON document, or text that \<open>json.loads\<close> rejects.  The text encoding
  itself (\<open>json.dumps\<close> with its indentation, and \<open>json.loads\<close> reading it back) is
  the library's and is not modelled: writing a document and reading the file gives the
  document.  Directories are not modelled either.
\<close>

datatype file_content = Json json | Malformed

type_synonym filesystem = "string \<Rightarrow> file_content option"

definition CONFIG_PATH :: string where
  "CONFIG_PATH = ''config.json''"

definition HIGHS_PATH :: string where
  "HIGHS_PATH = ''data/highs.json''"

text \<open>\<open>json.loads(path.read_text(encoding="utf-8"))\<close>\<close>

definition read_json :: "filesystem \<Rightarrow> string \<Rightarrow> pyerror + json" where
  "read_json fs path =
     (case fs path of
        None \<Rightarrow> Inl FileNotFoundError
      | Some Malformed \<Rightarrow> Inl (ValueError ''JSONDecodeError'')
      | Some (Json v) \<Rightarrow> Inr v)"

section \<open>The program\<close>

subsection \<open>What the program prints and sends\<close>

text \<open>
  The lines printed, by the statement that prints them (formatting of the numbers is not
  modelled), the text of an alert (ticker, drop percent, price, high, UTC time), and the
  trace of a run: lines printed, calls of \<open>send_telegram_message\<close>, and POST requests
  (URL, chat id, text).
\<close>

datatype message = Alert string pyfloat pyfloat pyfloat string

datatype line =
    WarnBadHigh string json
  | TelegramNotConfigured
  | TelegramError int string
  | FetchFailed string pyerror
  | InitialHigh string pyfloat
  | NewHigh string pyfloat pyfloat
  | AlertSent string pyfloat pyfloat
  | PriceLine string pyfloat pyfloat
  | SavedHighs string
  | NoHighUpdates

datatype event =
    Print line
  | Notify message
  | Post string string message

subsection \<open>\<open>load_config\<close>\<close>

text \<open>
  The comprehension \<open>[t.strip().upper() for t in ... if str(t).strip()]\<close>.  For an
  item that is not a string, \<open>str(t)\<close> is never blank and \<open>t.strip()\<close> raises
  \<open>AttributeError\<close>.
\<close>

fun ticker_list :: "json list \<Rightarrow> pyerror + string list" where
  "ticker_list [] = Inr []"
| "ticker_list (JString s # ts) =
     (if strip s \<noteq> [] then
        (case ticker_list ts of Inl e \<Rightarrow> Inl e | Inr r \<Rightarrow> Inr (upper (strip s) # r))
      else ticker_list ts)"
| "ticker_list (_ # ts) = Inl AttributeError"

text \<open>What a \<open>for\<close> over a loaded JSON value iterates on.\<close>

fun py_iter :: "json \<Rightarrow> pyerror + json list" where
  "py_iter (JArray xs) = Inr xs"
| "py_iter (JString s) = Inr (map (\<lambda>c. JString [c]) s)"
| "py_iter (JObject kvs) = Inr (map (\<lambda>(k, v). JString k) kvs)"
| "py_iter _ = Inl TypeError"

text \<open>\<open>data.get(key, dflt)\<close>; only a \<open>dict\<close> has the method.\<close>

fun py_get :: "json \<Rightarrow> string \<Rightarrow> json \<Rightarrow> pyerror + json" where
  "py_get (JObject kvs) key dflt =
     Inr (case map_of kvs key of None \<Rightarrow> dflt | Some v \<Rightarrow> v)"
| "py_get _ key dflt = Inl AttributeError"

text \<open>The messages of the two \<open>ValueError\<close>s are written without their apostrophes.\<close>

definition config_of :: "json \<Rightarrow> pyerror + (string list \<times> pyfloat)" where
  "config_of data =
     (case py_get data ''tickers'' (JArray []) of
        Inl e \<Rightarrow> Inl e
      | Inr raw_tickers \<Rightarrow>
     (case py_iter raw_tickers of
        Inl e \<Rightarrow> Inl e
      | Inr items \<Rightarrow>
     (case ticker_list items of
        Inl e \<Rightarrow> Inl e
      | Inr tickers \<Rightarrow>
          if tickers = [] then
            Inl (ValueError ''config.json must include a non-empty tickers list.'')
          else
     (case py_get data ''drop_percent'' (JInt 20) of
        Inl e \<Rightarrow> Inl e
      | Inr raw_drop \<Rightarrow>
     (case py_float raw_drop of
        Inl e \<Rightarrow> Inl e
      | Inr drop_percent \<Rightarrow>
          if \<not> (flt (Finite 0) drop_percent \<and> flt drop_percent (Finite 100)) then
            Inl (ValueError ''drop_percent must be between 0 and 100.'')
          else Inr (tickers, drop_percent))))))"

definition load_config :: "filesystem \<Rightarrow> string \<Rightarrow> pyerror + (string list \<times> pyfloat)" where
  "load_config fs path =
     (case read_json fs path of Inl e \<Rightarrow> Inl e | Inr data \<Rightarrow> config_of data)"

subsection \<open>\<open>load_highs\<close> and \<open>save_highs\<close>\<close>

text \<open>
  The loop over \<open>raw.items()\<close>: \<open>TypeError\<close> and \<open>ValueError\<close> of \<open>float(value)\<close>
  are caught and a warning is printed; any other exception leaves the loop.
\<close>

fun load_entries ::
  "(string \<times> json) list \<Rightarrow> pyfloat dict \<Rightarrow> event list \<times> (pyerror + pyfloat dict)" where
  "load_entries [] highs = ([], Inr highs)"
| "load_entries ((key, v) # rest) highs =
     (case py_float v of
        Inr f \<Rightarrow> load_entries rest (dict_set (upper key) f highs)
      | Inl TypeError \<Rightarrow>
          (let (out, r) = load_entries rest highs in (Print (WarnBadHigh key v) # out, r))
      | Inl (ValueError msg) \<Rightarrow>
          (let (out, r) = load_entries rest highs in (Print (WarnBadHigh key v) # out, r))
      | Inl e \<Rightarrow> ([], Inl e))"

definition load_highs :: "filesystem \<Rightarrow> string \<Rightarrow> event list \<times> (pyerror + pyfloat dict)" where
  "load_highs fs path =
     (if fs path = None then ([], Inr [])
      else
        (case read_json fs path of
           Inl e \<Rightarrow> ([], Inl e)
         | Inr (JObject kvs) \<Rightarrow> load_entries kvs []
         | Inr _ \<Rightarrow> ([], Inl (ValueError ''highs.json must be a JSON object of {ticker: high}.''))))"

text \<open>
  \<open>ordered = {k: highs[k] for k in sorted(highs)}\<close>, then the file is replaced by the
  dump of \<open>ordered\<close>.
\<close>

definition ordered_items :: "pyfloat dict \<Rightarrow> pyfloat dict" where
  "ordered_items highs =
     concat (map (\<lambda>k. case dict_get highs k of None \<Rightarrow> [] | Some v \<Rightarrow> [(k, v)])
                 (sort (map fst highs)))"

definition save_highs :: "filesystem \<Rightarrow> string \<Rightarrow> pyfloat dict \<Rightarrow> filesystem" where
  "save_highs fs path highs =
     fs(path \<mapsto> Json (JObject (map (\<lambda>(k, v). (k, JFloat v)) (ordered_items highs))))"

subsection \<open>\<open>fetch_price\<close>\<close>

text \<open>
  The market-data provider is outside the program.  What \<open>yf.Ticker(ticker)\<close> answers
  is given by the outcome of each call made on it, \<open>Inl\<close> an exception it raises:
  reading the attribute \<open>fast_info\<close> (an object with a truth value),
  \<open>fast_info.get("last_price")\<close> (\<open>None\<close> or a number), and
  \<open>history(period="5d")\<close> (the closes of the rows returned, oldest first).
\<close>

record fast_info =
  truthy :: bool
  get_last_price :: "pyerror + pyfloat option"

record ticker_obj =
  fast_info :: "pyerror + fast_info"
  history :: "pyerror + pyfloat list"

definition fetch_price :: "ticker_obj \<Rightarrow> pyerror + pyfloat" where
  "fetch_price obj =
     (let fast = (case fast_info obj of Inl e \<Rightarrow> None | Inr fi \<Rightarrow> Some fi);
          quote =
            (case fast of
               None \<Rightarrow> Inr None
             | Some fi \<Rightarrow>
                 if truthy fi then
                   (case get_last_price fi of
                      Inl e \<Rightarrow> Inl e
                    | Inr None \<Rightarrow> Inr None
                    | Inr (Some p) \<Rightarrow> Inr (if float_truthy p then Some p else None))
                 else Inr None)
      in case quote of
           Inl e \<Rightarrow> Inl e
         | Inr (Some p) \<Rightarrow> Inr p
         | Inr None \<Rightarrow>
             (case history obj of
                Inl e \<Rightarrow> Inl e
              | Inr closes \<Rightarrow>
                  if closes = [] then Inl (ValueError ''No price data returned.'')
                  else Inr (last closes)))"

subsection \<open>\<open>send_telegram_message\<close>\<close>

text \<open>
  The messaging provider is outside the program as well: \<open>requests.post\<close> raises or
  returns a response.
\<close>

record response =
  ok :: bool
  status_code :: int
  body :: string

definition falsy :: "string option \<Rightarrow> bool" where
  "falsy s = (s = None \<or> s = Some [])"

definition send_telegram_message ::
  "(pyerror + response) \<Rightarrow> string option \<Rightarrow> string option \<Rightarrow> message
     \<Rightarrow> event list \<times> (pyerror + bool)" where
  "send_telegram_message post token chat_id txt =
     (if falsy token \<or> falsy chat_id then ([Print TelegramNotConfigured], Inr False)
      else
        let url = ''https://api.telegram.org/bot'' @ the token @ ''/sendMessage'';
            request = Post url (the chat_id) txt
        in case post of
             Inl e \<Rightarrow> ([request], Inl e)
           | Inr resp \<Rightarrow>
               if \<not> ok resp then
                 ([request, Print (TelegramError (status_code resp) (body resp))], Inr (ok resp))
               else ([request], Inr (ok resp)))"

subsection \<open>\<open>main\<close>\<close>

text \<open>
  The world a run meets: the files, the environment variables, and, for the loop
  iteration with index \<open>i\<close>, what the provider answers for the ticker, what the POST
  of that iteration does, and the UTC time read for the message.
\<close>

record world =
  files :: filesystem
  getenv :: "string \<Rightarrow> string option"
  provider :: "nat \<Rightarrow> string \<Rightarrow> ticker_obj"
  telegram :: "nat \<Rightarrow> pyerror + response"
  clock :: "nat \<Rightarrow> string"

text \<open>The variables of \<open>main\<close> that the loop changes, and the trace so far.\<close>

record state =
  highs :: "pyfloat dict"
  updated_highs :: bool
  trace :: "event list"

text \<open>
  The body of \<open>for ticker in tickers\<close>, for iteration \<open>i\<close>.  The second component is
  the exception that leaves the body, if any: only the call of \<open>fetch_price\<close> stands
  in a \<open>try\<close>.
\<close>

definition process_ticker ::
  "world \<Rightarrow> pyfloat \<Rightarrow> pyfloat \<Rightarrow> string option \<Rightarrow> string option \<Rightarrow> nat \<Rightarrow> string
     \<Rightarrow> state \<Rightarrow> state \<times> pyerror option" where
  "process_ticker w drop_percent drop_factor token chat_id i ticker st =
     (case fetch_price (provider w i ticker) of
        Inl exc \<Rightarrow> (st\<lparr>trace := trace st @ [Print (FetchFailed ticker exc)]\<rparr>, None)
      | Inr price \<Rightarrow>
          (case dict_get (highs st) ticker of
             None \<Rightarrow>
               (st\<lparr>highs := dict_set ticker price (highs st),
                   updated_highs := True,
                   trace := trace st @ [Print (InitialHigh ticker price)]\<rparr>, None)
           | Some high \<Rightarrow>
               if fgt price high then
                 (st\<lparr>highs := dict_set ticker price (highs st),
                     updated_highs := True,
                     trace := trace st @ [Print (NewHigh ticker price high)]\<rparr>, None)
               else
                 let threshold = fmul high drop_factor in
                 if fle price threshold then
                   (let txt = Alert ticker drop_percent price high (clock w i);
                        (sent, r) = send_telegram_message (telegram w i) token chat_id txt
                    in case r of
                         Inl exc \<Rightarrow> (st\<lparr>trace := trace st @ Notify txt # sent\<rparr>, Some exc)
                       | Inr delivered \<Rightarrow>
                           (st\<lparr>trace := trace st @ Notify txt # sent
                                          @ [Print (AlertSent ticker price high)]\<rparr>, None))
                 else (st\<lparr>trace := trace st @ [Print (PriceLine ticker price high)]\<rparr>, None)))"

fun ticker_loop ::
  "world \<Rightarrow> pyfloat \<Rightarrow> pyfloat \<Rightarrow> string option \<Rightarrow> string option \<Rightarrow> nat \<Rightarrow> string list
     \<Rightarrow> state \<Rightarrow> state \<times> pyerror option" where
  "ticker_loop w drop_percent drop_factor token chat_id i [] st = (st, None)"
| "ticker_loop w drop_percent drop_factor token chat_id i (ticker # rest) st =
     (case process_ticker w drop_percent drop_factor token chat_id i ticker st of
        (st', Some exc) \<Rightarrow> (st', Some exc)
      | (st', None) \<Rightarrow> ticker_loop w drop_percent drop_factor token chat_id (Suc i) rest st')"

text \<open>\<open>drop_factor = 1 - (drop_percent / 100.0)\<close>\<close>

definition drop_factor_of :: "pyfloat \<Rightarrow> pyfloat" where
  "drop_factor_of drop_percent = fsub (Finite 1) (fdiv100 drop_percent)"

text \<open>
  What a run leaves behind: the files, the trace, the exception that ended it (if any),
  and the table of highs and the flag as they stood at the end.
\<close>

record result =
  files_after :: filesystem
  events :: "event list"
  raised :: "pyerror option"
  final :: state

text \<open>\<open>main\<close> from the loop on, with the configuration and the highs loaded.\<close>

definition run_loop :: "world \<Rightarrow> string list \<Rightarrow> pyfloat \<Rightarrow> state \<Rightarrow> result" where
  "run_loop w tickers drop_percent st0 =
     (let drop_factor = drop_factor_of drop_percent;
          token = getenv w ''TELEGRAM_BOT_TOKEN'';
          chat_id = getenv w ''TELEGRAM_CHAT_ID'';
          (st, exc) = ticker_loop w drop_percent drop_factor token chat_id 0 tickers st0
      in case exc of
           Some e \<Rightarrow> \<lparr>files_after = files w, events = trace st, raised = Some e, final = st\<rparr>
         | None \<Rightarrow>
             if updated_highs st then
               \<lparr>files_after = save_highs (files w) HIGHS_PATH (highs st),
                events = trace st @ [Print (SavedHighs HIGHS_PATH)],
                raised = None, final = st\<rparr>
             else
               \<lparr>files_after = files w,
                events = trace st @ [Print NoHighUpdates],
                raised = None, final = st\<rparr>)"

definition main :: "world \<Rightarrow> result" where
  "main w =
     (let start = \<lparr>highs = [], updated_highs = False, trace = []\<rparr> in
      case load_config (files w) CONFIG_PATH of
        Inl e \<Rightarrow> \<lparr>files_after = files w, events = [], raised = Some e, final = start\<rparr>
      | Inr (tickers, drop_percent) \<Rightarrow>
          (case load_highs (files w) HIGHS_PATH of
             (warnings, Inl e) \<Rightarrow>
               \<lparr>files_after = files w, events = warnings, raised = Some e,
                final = start\<lparr>trace := warnings\<rparr>\<rparr>
           | (warnings, Inr loaded) \<Rightarrow>
               run_loop w tickers drop_percent
                 \<lparr>highs = loaded, updated_highs = False, trace = warnings\<rparr>))"

section \<open>Vocabulary of the statements\<close>

subsection \<open>Observations on a run\<close>

text \<open>
  The events that a step or a loop added to the trace, and the alert texts handed to
  \<open>send_telegram_message\<close> among a list of events.
\<close>

definition added :: "state \<Rightarrow> state \<Rightarrow> event list" where
  "added st st' = drop (length (trace st)) (trace st')"

fun notified :: "event list \<Rightarrow> message list" where
  "notified [] = []"
| "notified (Notify m # evs) = m # notified evs"
| "notified (_ # evs) = notified evs"

text \<open>
  How a run ended: with the call of \<open>save_highs\<close> and the line printed after it, or
  with the files as they were and the line "No high updates.".
\<close>

definition saved :: "world \<Rightarrow> result \<Rightarrow> bool" where
  "saved w r =
     (files_after r = save_highs (files w) HIGHS_PATH (highs (final r))
      \<and> events r \<noteq> [] \<and> last (events r) = Print (SavedHighs HIGHS_PATH))"

definition untouched :: "world \<Rightarrow> result \<Rightarrow> bool" where
  "untouched w r =
     (files_after r = files w
      \<and> events r \<noteq> [] \<and> last (events r) = Print NoHighUpdates)"

subsection \<open>Relations between two tables of highs\<close>

text \<open>
  \<open>never_lower before after\<close>: every ticker of \<open>before\<close> is still in \<open>after\<close>, with
  the same high or a strictly greater one.  \<open>changed before after\<close>: some ticker's
  high was set (it had none in \<open>before\<close>) or raised (it is strictly greater in
  \<open>after\<close>).
\<close>

definition never_lower :: "pyfloat dict \<Rightarrow> pyfloat dict \<Rightarrow> bool" where
  "never_lower before after =
     (\<forall>t h. dict_get before t = Some h \<longrightarrow>
        (\<exists>h'. dict_get after t = Some h' \<and> (h' = h \<or> fgt h' h)))"

definition changed :: "pyfloat dict \<Rightarrow> pyfloat dict \<Rightarrow> bool" where
  "changed before after =
     (\<exists>t. case dict_get before t of
            None \<Rightarrow> dict_get after t \<noteq> None
          | Some h \<Rightarrow> (\<exists>h'. dict_get after t = Some h' \<and> fgt h' h))"

text \<open>The loop invariant: the flag is set exactly when the table differs from the start.\<close>

definition flag_inv :: "pyfloat dict \<Rightarrow> state \<Rightarrow> bool" where
  "flag_inv start st =
     (never_lower start (highs st)
      \<and> (if updated_highs st then changed start (highs st) else highs st = start))"

text \<open>
  Equality of two dictionaries of floats as Python's \<open>==\<close> decides it on objects that are
  not shared: the same number of items, and every key of the first in the second with an
  equal value (a NaN is equal to nothing).
\<close>

definition dict_eq :: "pyfloat dict \<Rightarrow> pyfloat dict \<Rightarrow> bool" where
  "dict_eq a b =
     (length a = length b
      \<and> list_all (\<lambda>(k, x). case dict_get b k of None \<Rightarrow> False | Some y \<Rightarrow> feq x y) a)"

subsection \<open>What the loaders are to return\<close>


text \<open>
  What \<open>load_highs\<close> is to keep of the items of a stored object: for every value that
  \<open>float\<close> converts, the uppercased key with the float; and the warnings for the rest.
\<close>

definition converted :: "(string \<times> json) list \<Rightarrow> pyfloat dict" where
  "converted kvs =
     concat (map (\<lambda>(k, v). case py_float v of Inr f \<Rightarrow> [(upper k, f)] | Inl e \<Rightarrow> []) kvs)"

definition warnings_of :: "(string \<times> json) list \<Rightarrow> event list" where
  "warnings_of kvs =
     concat (map (\<lambda>(k, v). case py_float v of Inr f \<Rightarrow> [] | Inl e \<Rightarrow> [Print (WarnBadHigh k v)])
                 kvs)"

text \<open>The assignments \<open>d[k] = f\<close> for the items of a list, in order.\<close>

definition assign_all :: "pyfloat dict \<Rightarrow> pyfloat dict \<Rightarrow> pyfloat dict" where
  "assign_all items d = fold (\<lambda>(k, f). dict_set k f) items d"

text \<open>No value is an integer too large for a float.\<close>

definition no_overflow :: "(string \<times> json) list \<Rightarrow> bool" where
  "no_overflow kvs = list_all (\<lambda>(k, v). py_float v \<noteq> Inl OverflowError) kvs"

section \<open>Sample inputs\<close>

subsection \<open>Providers and worlds\<close>

text \<open>A provider that answers every request with the fast quote \<open>p\<close>.\<close>

definition quoting :: "pyfloat \<Rightarrow> ticker_obj" where
  "quoting p =
     \<lparr>fast_info = Inr \<lparr>truthy = True, get_last_price = Inr (Some p)\<rparr>, history = Inr []\<rparr>"

text \<open>
  Three more answers, each with two rows of history (closes 10 and 11): reading
  \<open>fast_info\<close> raises; \<open>fast_info.get("last_price")\<close> raises; the fast quote is zero.
\<close>

definition fast_info_raises :: ticker_obj where
  "fast_info_raises = \<lparr>fast_info = Inl (ProviderError ''KeyError''),
                        history = Inr [Finite 10, Finite 11]\<rparr>"

definition last_price_raises :: ticker_obj where
  "last_price_raises =
     \<lparr>fast_info = Inr \<lparr>truthy = True, get_last_price = Inl (ProviderError ''KeyError'')\<rparr>,
      history = Inr [Finite 10, Finite 11]\<rparr>"

definition zero_quote :: ticker_obj where
  "zero_quote =
     \<lparr>fast_info = Inr \<lparr>truthy = True, get_last_price = Inr (Some (Finite 0))\<rparr>,
      history = Inr [Finite 10, Finite 11]\<rparr>"

text \<open>The POST succeeding, and the POST raising for want of a connection.\<close>

definition delivered :: "pyerror + response" where
  "delivered = Inr \<lparr>ok = True, status_code = 200, body = []\<rparr>"

definition no_connection :: "pyerror + response" where
  "no_connection = Inl (RequestException ''ConnectionError'')"

text \<open>The environment without and with the two variables of Telegram.\<close>

definition no_env :: "string \<Rightarrow> string option" where
  "no_env name = None"

definition telegram_env :: "string \<Rightarrow> string option" where
  "telegram_env name =
     (if name = ''TELEGRAM_BOT_TOKEN'' then Some ''token''
      else if name = ''TELEGRAM_CHAT_ID'' then Some ''chat'' else None)"

definition no_files :: filesystem where
  "no_files path = None"

text \<open>Every ticker at the price \<open>p\<close>, no file, nothing configured for Telegram.\<close>

definition flat_world :: "pyfloat \<Rightarrow> world" where
  "flat_world p =
     \<lparr>files = no_files, getenv = no_env, provider = (\<lambda>i t. quoting p),
      telegram = (\<lambda>i. delivered), clock = (\<lambda>i. ''2024-01-01T00:00:00+00:00'')\<rparr>"

definition rising_world :: world where
  "rising_world = flat_world (Finite 110)"

definition table_100 :: state where
  "table_100 = \<lparr>highs = [(''AAA'', Finite 100)], updated_highs = False, trace = []\<rparr>"

definition empty_table :: state where
  "empty_table = \<lparr>highs = [], updated_highs = False, trace = []\<rparr>"

text \<open>
  A world with a configuration file, a stored table (if any), and a provider that answers
  the request of iteration \<open>i\<close> with the fast quote \<open>prices i\<close>.
\<close>

definition sample_world ::
  "json \<Rightarrow> json option \<Rightarrow> (string \<Rightarrow> string option) \<Rightarrow> (nat \<Rightarrow> pyfloat)
     \<Rightarrow> (pyerror + response) \<Rightarrow> world" where
  "sample_world config stored env prices post =
     \<lparr>files = (\<lambda>path. if path = CONFIG_PATH then Some (Json config)
                      else if path = HIGHS_PATH then map_option Json stored else None),
      getenv = env,
      provider = (\<lambda>i t. quoting (prices i)),
      telegram = (\<lambda>i. post),
      clock = (\<lambda>i. ''2024-01-01T00:00:00+00:00'')\<rparr>"

text \<open>A first run: one ticker at 50, no stored table.\<close>

definition config_aaa :: json where
  "config_aaa = JObject [(''tickers'', JArray [JString '' aaa '']), (''drop_percent'', JInt 20)]"

definition first_run :: world where
  "first_run = sample_world config_aaa None no_env (\<lambda>i. Finite 50) delivered"

text \<open>
  The same ticker listed twice, a stored high of 100, a drop of 1 percent, and a quote that
  moves from 110 to 108 between the two requests.
\<close>

definition config_twice :: json where
  "config_twice =
     JObject [(''tickers'', JArray [JString ''AAA'', JString ''aaa'']), (''drop_percent'', JInt 1)]"

definition stored_100 :: json where
  "stored_100 = JObject [(''AAA'', JInt 100)]"

definition twice_world :: world where
  "twice_world =
     sample_world config_twice (Some stored_100) no_env
       (\<lambda>i. if i = 0 then Finite 110 else Finite 108) delivered"

text \<open>
  Telegram configured, the POST raising, two tickers at 50: \<open>BBB\<close> is new, \<open>AAA\<close> has a
  stored high of 100.
\<close>

definition config_bbb_aaa :: json where
  "config_bbb_aaa =
     JObject [(''tickers'', JArray [JString ''BBB'', JString ''AAA'']), (''drop_percent'', JInt 20)]"

definition outage_world :: world where
  "outage_world =
     sample_world config_bbb_aaa (Some stored_100) telegram_env (\<lambda>i. Finite 50) no_connection"

subsection \<open>Files\<close>

text \<open>Configuration records, and a file system that holds one as \<open>config.json\<close>.\<close>

definition config_with :: "json list \<Rightarrow> json \<Rightarrow> json" where
  "config_with ts d = JObject [(''tickers'', JArray ts), (''drop_percent'', d)]"


text \<open>A file system that holds a document as \<open>data/highs.json\<close>.\<close>

definition stored_in :: "json \<Rightarrow> filesystem" where
  "stored_in doc = (\<lambda>path. if path = HIGHS_PATH then Some (Json doc) else None)"

text \<open>
  Stored objects: values of every kind; an integer of 401 digits; a value that is not a
  number; and, with it, the integer \<open>2 ^ 1024\<close>, the least that no float holds.
\<close>

definition mixed_items :: "(string \<times> json) list" where
  "mixed_items =
     [(''aapl'', JString ''12.5''), (''b'', JBool True), (''c'', JInt 0),
      (''d'', JFloat (Finite (- 3))), (''e'', JFloat PosInf), (''f'', JFloat NaN),
      (''g'', JNull), (''AAPL'', JInt 7)]"

definition huge_items :: "(string \<times> json) list" where
  "huge_items = [(''aaa'', JInt 1), (''big'', JInt (10 ^ 400))]"

definition tolerant_items :: "(string \<times> json) list" where
  "tolerant_items = [(''AAA'', JInt 10), (''BBB'', JString ''x'')]"

definition crashing_items :: "(string \<times> json) list" where
  "crashing_items = [(''AAA'', JInt 10), (''BBB'', JString ''x''), (''CCC'', JInt (2 ^ 1024))]"

text \<open>A table in memory, its keys not in order.\<close>

definition two_highs :: "pyfloat dict" where
  "two_highs = [(''MSFT'', Finite (801 / 2)), (''AAPL'', Finite 190)]"

section \<open>Facts about the trace and about float arithmetic\<close>





section \<open>The alert threshold\<close>



section \<open>The table of highs only grows\<close>

lemma flt_irrefl: "\<not> flt x x"
  by (cases x) simp_all

lemma flt_trans: "flt x y \<Longrightarrow> flt y z \<Longrightarrow> flt x z"
  by (cases x; cases y; cases z) simp_all

lemma fgt_irrefl: "\<not> fgt x x"
  by (simp add: fgt_def flt_irrefl)

lemma fgt_trans: "fgt x y \<Longrightarrow> fgt y z \<Longrightarrow> fgt x z"
  unfolding fgt_def by (rule flt_trans)

lemma dict_get_set: "dict_get (dict_set k v d) k' = (if k' = k then Some v else dict_get d k')"
  by (simp add: dict_get_def dict_set_def update_conv')

text \<open>What one iteration does to the table and the flag.\<close>

lemma process_ticker_cases:
  assumes "process_ticker w dp df token chat_id i ticker st = (st', exc)"
  shows "(highs st' = highs st \<and> updated_highs st' = updated_highs st)
       \<or> (\<exists>price. fetch_price (provider w i ticker) = Inr price
            \<and> highs st' = dict_set ticker price (highs st) \<and> updated_highs st' \<and> exc = None
            \<and> (case dict_get (highs st) ticker of None \<Rightarrow> True | Some high \<Rightarrow> fgt price high))"
  using assms
  by (auto simp: process_ticker_def Let_def split: sum.splits option.splits if_splits prod.splits)

lemma never_lower_refl: "never_lower d d"
  by (simp add: never_lower_def)

lemma never_lower_trans:
  assumes "never_lower a b" and "never_lower b c"
  shows "never_lower a c"
  unfolding never_lower_def
proof (intro allI impI)
  fix t h assume "dict_get a t = Some h"
  with assms(1) obtain h1 where h1: "dict_get b t = Some h1" "h1 = h \<or> fgt h1 h"
    by (auto simp: never_lower_def)
  with assms(2) obtain h2 where h2: "dict_get c t = Some h2" "h2 = h1 \<or> fgt h2 h1"
    by (auto simp: never_lower_def)
  from h1(2) h2(2) have "h2 = h \<or> fgt h2 h"
    by (auto intro: fgt_trans)
  with h2(1) show "\<exists>h'. dict_get c t = Some h' \<and> (h' = h \<or> fgt h' h)"
    by blast
qed

lemma never_lower_set:
  assumes "case dict_get d k of None \<Rightarrow> True | Some high \<Rightarrow> fgt price high"
  shows "never_lower d (dict_set k price d)"
  using assms by (auto simp: never_lower_def dict_get_set split: option.splits)

lemma process_ticker_never_lower:
  assumes "process_ticker w dp df token chat_id i ticker st = (st', exc)"
  shows "never_lower (highs st) (highs st')"
  using process_ticker_cases [OF assms]
  by (auto simp: never_lower_refl intro: never_lower_set)

lemma ticker_loop_never_lower:
  "ticker_loop w dp df token chat_id i tickers st = (st', exc)
     \<Longrightarrow> never_lower (highs st) (highs st')"
proof (induction tickers arbitrary: i st)
  case Nil
  then show ?case by (simp add: never_lower_refl)
next
  case (Cons ticker rest)
  obtain s1 e1 where p: "process_ticker w dp df token chat_id i ticker st = (s1, e1)"
    by (cases "process_ticker w dp df token chat_id i ticker st")
  have a: "never_lower (highs st) (highs s1)"
    by (rule process_ticker_never_lower [OF p])
  show ?case
  proof (cases e1)
    case None
    with Cons.prems p have "ticker_loop w dp df token chat_id (Suc i) rest s1 = (st', exc)"
      by simp
    then have "never_lower (highs s1) (highs st')" by (rule Cons.IH)
    with a show ?thesis by (rule never_lower_trans)
  next
    case (Some e)
    with Cons.prems p have "st' = s1" by simp
    with a show ?thesis by simp
  qed
qed


lemma final_run_loop:
  "final (run_loop w tickers dp st0) =
     fst (ticker_loop w dp (drop_factor_of dp) (getenv w ''TELEGRAM_BOT_TOKEN'')
            (getenv w ''TELEGRAM_CHAT_ID'') 0 tickers st0)"
  by (simp add: run_loop_def Let_def split: prod.splits option.splits)

text \<open>
  Claim C3.  A ticker that has a high before the loop still has one when the run ends (or
  is ended by an exception), equal to the old one or strictly greater.  One iteration
  leaves the table as it is, or assigns the fetched price to the iteration's own ticker,
  and that only when the ticker had no entry or the price is strictly greater than the
  stored high.
\<close>

theorem highs_never_decrease:
  assumes "dict_get (highs st0) t = Some h"
  shows "(\<exists>h'. dict_get (highs (final (run_loop w tickers dp st0))) t = Some h'
            \<and> (h' = h \<or> fgt h' h))
       \<and> (\<forall>i ticker st. let st' = fst (process_ticker w dp df token chat_id i ticker st) in
            highs st' = highs st
            \<or> (\<exists>price. fetch_price (provider w i ticker) = Inr price
                 \<and> highs st' = dict_set ticker price (highs st)
                 \<and> (case dict_get (highs st) ticker of
                       None \<Rightarrow> True | Some high \<Rightarrow> fgt price high)))"
proof
  let ?loop = "ticker_loop w dp (drop_factor_of dp) (getenv w ''TELEGRAM_BOT_TOKEN'')
            (getenv w ''TELEGRAM_CHAT_ID'') 0 tickers st0"
  have "never_lower (highs st0) (highs (fst ?loop))"
    by (rule ticker_loop_never_lower [of _ _ _ _ _ _ _ _ _ "snd ?loop"]) simp
  with assms show "\<exists>h'. dict_get (highs (final (run_loop w tickers dp st0))) t = Some h'
            \<and> (h' = h \<or> fgt h' h)"
    by (simp add: final_run_loop never_lower_def)
next
  show "\<forall>i ticker st. let st' = fst (process_ticker w dp df token chat_id i ticker st) in
            highs st' = highs st
            \<or> (\<exists>price. fetch_price (provider w i ticker) = Inr price
                 \<and> highs st' = dict_set ticker price (highs st)
                 \<and> (case dict_get (highs st) ticker of
                       None \<Rightarrow> True | Some high \<Rightarrow> fgt price high))"
  proof (intro allI)
    fix i ticker st
    obtain s1 e1 where p: "process_ticker w dp df token chat_id i ticker st = (s1, e1)"
      by (cases "process_ticker w dp df token chat_id i ticker st")
    from process_ticker_cases [OF p] show "let st' = fst (process_ticker w dp df token chat_id i ticker st) in
            highs st' = highs st
            \<or> (\<exists>price. fetch_price (provider w i ticker) = Inr price
                 \<and> highs st' = dict_set ticker price (highs st)
                 \<and> (case dict_get (highs st) ticker of
                       None \<Rightarrow> True | Some high \<Rightarrow> fgt price high))"
      using p by (auto simp: Let_def)
  qed
qed

lemma rising_run:
  "highs (final (run_loop rising_world [''AAA''] (Finite 20) table_100)) = [(''AAA'', Finite 110)]"
  by (simp add: final_run_loop rising_world_def flat_world_def quoting_def table_100_def
      process_ticker_def fetch_price_def float_truthy_def dict_get_def dict_set_def fgt_def
      no_env_def)

theorem highs_never_decrease_witness:
  "dict_get (highs table_100) ''AAA'' = Some (Finite 100)
   \<and> dict_get (highs (final (run_loop rising_world [''AAA''] (Finite 20) table_100))) ''AAA''
       = Some (Finite 110)
   \<and> fgt (Finite 110) (Finite 100)"
proof -
  have d: "dict_get (highs table_100) ''AAA'' = Some (Finite 100)"
    by (simp add: table_100_def dict_get_def)
  from highs_never_decrease [OF d, of rising_world "[''AAA'']" "Finite 20"]
  have "\<exists>h'. dict_get (highs (final (run_loop rising_world [''AAA''] (Finite 20) table_100))) ''AAA''
          = Some h' \<and> (h' = Finite 100 \<or> fgt h' (Finite 100))"
    by blast
  then show ?thesis
    using d by (simp add: rising_run dict_get_def fgt_def)
qed

section \<open>Saving the highs\<close>

lemma not_changed_refl: "\<not> changed d d"
  by (auto simp: changed_def fgt_irrefl split: option.splits)

lemma changed_after_set:
  assumes nl: "never_lower a b"
    and c: "case dict_get b k of None \<Rightarrow> True | Some high \<Rightarrow> fgt price high"
  shows "changed a (dict_set k price b)"
proof (cases "dict_get a k")
  case None
  then show ?thesis
    by (auto simp: changed_def dict_get_set intro!: exI [of _ k])
next
  case (Some h0)
  with nl obtain h1 where h1: "dict_get b k = Some h1" "h1 = h0 \<or> fgt h1 h0"
    by (auto simp: never_lower_def)
  with c have "fgt price h1" by simp
  with h1(2) have "fgt price h0" by (auto intro: fgt_trans)
  with Some show ?thesis
    by (auto simp: changed_def dict_get_set intro!: exI [of _ k])
qed

lemma process_ticker_flag_inv:
  assumes "process_ticker w dp df token chat_id i ticker st = (st', exc)"
    and "flag_inv start st"
  shows "flag_inv start st'"
proof -
  from process_ticker_cases [OF assms(1)]
  consider (same) "highs st' = highs st" "updated_highs st' = updated_highs st"
    | (upd) price where "highs st' = dict_set ticker price (highs st)" "updated_highs st'"
        "case dict_get (highs st) ticker of None \<Rightarrow> True | Some high \<Rightarrow> fgt price high"
    by blast
  then show ?thesis
  proof cases
    case same
    with assms(2) show ?thesis by (simp add: flag_inv_def)
  next
    case upd
    from assms(2) have nl: "never_lower start (highs st)" by (simp add: flag_inv_def)
    have "never_lower (highs st) (highs st')"
      using upd by (simp add: never_lower_set)
    with nl have a: "never_lower start (highs st')" by (rule never_lower_trans)
    have "changed start (highs st')"
      using changed_after_set [OF nl upd(3)] upd(1) by simp
    with a upd(2) show ?thesis by (simp add: flag_inv_def)
  qed
qed

lemma ticker_loop_flag_inv:
  "ticker_loop w dp df token chat_id i tickers st = (st', exc) \<Longrightarrow> flag_inv start st
     \<Longrightarrow> flag_inv start st'"
proof (induction tickers arbitrary: i st)
  case Nil
  then show ?case by simp
next
  case (Cons ticker rest)
  obtain s1 e1 where p: "process_ticker w dp df token chat_id i ticker st = (s1, e1)"
    by (cases "process_ticker w dp df token chat_id i ticker st")
  have a: "flag_inv start s1"
    by (rule process_ticker_flag_inv [OF p Cons.prems(2)])
  show ?case
  proof (cases e1)
    case None
    with Cons.prems(1) p have "ticker_loop w dp df token chat_id (Suc i) rest s1 = (st', exc)"
      by simp
    then show ?thesis using a by (rule Cons.IH)
  next
    case (Some e)
    with Cons.prems(1) p have "st' = s1" by simp
    with a show ?thesis by simp
  qed
qed

text \<open>When every fetch fails, nothing is sent, nothing changes, and no exception leaves.\<close>

lemma process_ticker_fetch_fails:
  assumes "fetch_price (provider w i ticker) = Inl e"
  shows "process_ticker w dp df token chat_id i ticker st
           = (st\<lparr>trace := trace st @ [Print (FetchFailed ticker e)]\<rparr>, None)"
  using assms by (simp add: process_ticker_def)

lemma ticker_loop_all_fail:
  assumes "\<And>j t. \<exists>e. fetch_price (provider w j t) = Inl e"
  shows "snd (ticker_loop w dp df token chat_id i tickers st) = None
       \<and> highs (fst (ticker_loop w dp df token chat_id i tickers st)) = highs st
       \<and> updated_highs (fst (ticker_loop w dp df token chat_id i tickers st)) = updated_highs st"
proof (induction tickers arbitrary: i st)
  case Nil
  then show ?case by simp
next
  case (Cons ticker rest)
  from assms obtain e where e: "fetch_price (provider w i ticker) = Inl e" by blast
  show ?case
    using Cons.IH [of "Suc i" "st\<lparr>trace := trace st @ [Print (FetchFailed ticker e)]\<rparr>"]
    by (simp add: process_ticker_fetch_fails [OF e])
qed

lemma run_loop_outcome:
  assumes "updated_highs st0 = False"
  shows "(raised (run_loop w tickers dp st0) = None \<longrightarrow>
            (saved w (run_loop w tickers dp st0)
               \<longleftrightarrow> changed (highs st0) (highs (final (run_loop w tickers dp st0)))))
       \<and> (raised (run_loop w tickers dp st0) = None \<longrightarrow>
            \<not> changed (highs st0) (highs (final (run_loop w tickers dp st0))) \<longrightarrow>
            untouched w (run_loop w tickers dp st0))
       \<and> (raised (run_loop w tickers dp st0) \<noteq> None \<longrightarrow>
            files_after (run_loop w tickers dp st0) = files w)"
proof -
  let ?loop = "ticker_loop w dp (drop_factor_of dp) (getenv w ''TELEGRAM_BOT_TOKEN'')
            (getenv w ''TELEGRAM_CHAT_ID'') 0 tickers st0"
  obtain st exc where l: "?loop = (st, exc)" by (cases ?loop)
  have "flag_inv (highs st0) st0"
    using assms by (simp add: flag_inv_def never_lower_refl)
  with l have inv: "flag_inv (highs st0) st" by (rule ticker_loop_flag_inv)
  show ?thesis
  proof (cases exc)
    case (Some e)
    with l show ?thesis by (simp add: run_loop_def)
  next
    case None
    show ?thesis
    proof (cases "updated_highs st")
      case True
      with inv have "changed (highs st0) (highs st)" by (simp add: flag_inv_def)
      with l None True show ?thesis
        by (simp add: run_loop_def saved_def)
    next
      case False
      with inv have "highs st = highs st0" by (simp add: flag_inv_def)
      with l None False show ?thesis
        by (simp add: run_loop_def saved_def untouched_def not_changed_refl)
    qed
  qed
qed

lemma first_run_config: "load_config (files first_run) CONFIG_PATH = Inr ([''AAA''], Finite 20)"
  by code_simp

lemma first_run_highs: "load_highs (files first_run) HIGHS_PATH = ([], Inr [])"
  by code_simp

lemma first_run_final:
  "final (main first_run)
     = \<lparr>highs = [(''AAA'', Finite 50)], updated_highs = True,
        trace = [Print (InitialHigh ''AAA'' (Finite 50))]\<rparr>"
  by code_simp

lemma first_run_raised: "raised (main first_run) = None"
  by code_simp

lemma first_run_events: "events (main first_run) = [Print (InitialHigh ''AAA'' (Finite 50)), Print (SavedHighs HIGHS_PATH)]"
  by code_simp

lemma main_loaded:
  assumes "load_config (files w) CONFIG_PATH = Inr (tickers, dp)"
    and "load_highs (files w) HIGHS_PATH = (warnings, Inr loaded)"
  shows "main w = run_loop w tickers dp \<lparr>highs = loaded, updated_highs = False, trace = warnings\<rparr>"
  using assms by (simp add: main_def)

lemma run_loop_all_fail:
  assumes "\<And>j t. \<exists>e. fetch_price (provider w j t) = Inl e" and "updated_highs st0 = False"
  shows "raised (run_loop w tickers dp st0) = None \<and> untouched w (run_loop w tickers dp st0)"
proof -
  let ?loop = "ticker_loop w dp (drop_factor_of dp) (getenv w ''TELEGRAM_BOT_TOKEN'')
            (getenv w ''TELEGRAM_CHAT_ID'') 0 tickers st0"
  obtain st exc where l: "?loop = (st, exc)" by (cases ?loop)
  from ticker_loop_all_fail [of w dp "drop_factor_of dp" "getenv w ''TELEGRAM_BOT_TOKEN''"
      "getenv w ''TELEGRAM_CHAT_ID''" 0 tickers st0] assms(1) l
  have "exc = None" "updated_highs st = updated_highs st0" by auto
  with l assms(2) show ?thesis
    by (simp add: run_loop_def untouched_def)
qed

text \<open>
  Runs that reach the end of \<open>main\<close>.  With the configuration and the highs loaded,
  such a run calls \<open>save_highs\<close> (and prints the line that follows the call) if and
  only if some ticker's high was set or raised.  When no high changed the files are left
  as they were and "No high updates." is the last line printed; in particular when every
  fetch fails, and then the run always reaches the end.  A run that an exception ends
  is another matter: see \<open>outage_world\<close> below.
\<close>

lemma completed_run_saves_iff_changed:
  assumes "load_config (files w) CONFIG_PATH = Inr (tickers, dp)"
    and "load_highs (files w) HIGHS_PATH = (warnings, Inr loaded)"
  shows "(raised (main w) = None \<longrightarrow>
            (saved w (main w) \<longleftrightarrow> changed loaded (highs (final (main w)))))
       \<and> (raised (main w) = None \<longrightarrow> \<not> changed loaded (highs (final (main w))) \<longrightarrow>
            untouched w (main w))
       \<and> (\<not> changed loaded (highs (final (main w))) \<longrightarrow> files_after (main w) = files w)
       \<and> ((\<forall>j t. \<exists>e. fetch_price (provider w j t) = Inl e) \<longrightarrow>
            raised (main w) = None \<and> untouched w (main w))"
proof -
  let ?st0 = "\<lparr>highs = loaded, updated_highs = False, trace = warnings\<rparr>"
  have m: "main w = run_loop w tickers dp ?st0"
    by (rule main_loaded [OF assms])
  have o: "(raised (main w) = None \<longrightarrow>
            (saved w (main w) \<longleftrightarrow> changed loaded (highs (final (main w)))))
       \<and> (raised (main w) = None \<longrightarrow> \<not> changed loaded (highs (final (main w))) \<longrightarrow>
            untouched w (main w))
       \<and> (raised (main w) \<noteq> None \<longrightarrow> files_after (main w) = files w)"
    using run_loop_outcome [of ?st0 w tickers dp] unfolding m by simp
  have f: "(\<forall>j t. \<exists>e. fetch_price (provider w j t) = Inl e) \<longrightarrow>
            raised (main w) = None \<and> untouched w (main w)"
    using run_loop_all_fail [of w ?st0 tickers dp] unfolding m by simp
  have u: "\<not> changed loaded (highs (final (main w))) \<longrightarrow> files_after (main w) = files w"
    using o by (cases "raised (main w)") (auto simp: untouched_def)
  from o f u show ?thesis by blast
qed

lemma completed_run_example:
  "load_config (files first_run) CONFIG_PATH = Inr ([''AAA''], Finite 20)
   \<and> load_highs (files first_run) HIGHS_PATH = ([], Inr [])
   \<and> raised (main first_run) = None
   \<and> highs (final (main first_run)) = [(''AAA'', Finite 50)]
   \<and> changed [] (highs (final (main first_run)))
   \<and> saved first_run (main first_run)"
proof -
  have c: "changed [] (highs (final (main first_run)))"
    by (auto simp: first_run_final changed_def dict_get_def intro!: exI [of _ "''AAA''"])
  from completed_run_saves_iff_changed [OF first_run_config first_run_highs] first_run_raised c
  have "saved first_run (main first_run)" by blast
  with c show ?thesis
    by (simp add: first_run_config first_run_highs first_run_raised first_run_final)
qed

section \<open>A new high comes before the alert\<close>

text \<open>
  Claim C2 ends on "never in the same run"; over a whole run that fails.  In
  \<open>twice_world\<close> the ticker is listed twice (the configuration is not deduplicated):
  the first iteration raises its high to 110, the second finds 108, below the threshold
  of 1 percent under 110, and alerts.
\<close>

theorem high_and_alert_in_one_run:
  "events (main twice_world)
     = [Print (NewHigh ''AAA'' (Finite 110) (Finite 100)),
        Notify (Alert ''AAA'' (Finite 1) (Finite 108) (Finite 110) ''2024-01-01T00:00:00+00:00''),
        Print TelegramNotConfigured,
        Print (AlertSent ''AAA'' (Finite 108) (Finite 110)),
        Print (SavedHighs HIGHS_PATH)]"
  by code_simp

text \<open>
  Claim C2, for one loop iteration.  When the fetch succeeds: a ticker with no recorded
  high gets the price as its high, a ticker whose price is strictly greater than its high
  gets the price as its new high, and in both cases the iteration ends there, whatever
  the drop percent; and an iteration that changes the table never calls
  \<open>send_telegram_message\<close>.
\<close>

theorem new_high_precedes_alert:
  assumes "fetch_price (provider w i ticker) = Inr price"
  shows "(dict_get (highs st) ticker = None \<longrightarrow>
            process_ticker w dp df token chat_id i ticker st
              = (st\<lparr>highs := dict_set ticker price (highs st), updated_highs := True,
                    trace := trace st @ [Print (InitialHigh ticker price)]\<rparr>, None))
       \<and> (\<forall>high. dict_get (highs st) ticker = Some high \<and> fgt price high \<longrightarrow>
            process_ticker w dp df token chat_id i ticker st
              = (st\<lparr>highs := dict_set ticker price (highs st), updated_highs := True,
                    trace := trace st @ [Print (NewHigh ticker price high)]\<rparr>, None))
       \<and> (highs (fst (process_ticker w dp df token chat_id i ticker st)) \<noteq> highs st \<longrightarrow>
            notified (added st (fst (process_ticker w dp df token chat_id i ticker st))) = [])"
proof (intro conjI allI impI)
  assume "dict_get (highs st) ticker = None"
  with assms show "process_ticker w dp df token chat_id i ticker st
              = (st\<lparr>highs := dict_set ticker price (highs st), updated_highs := True,
                    trace := trace st @ [Print (InitialHigh ticker price)]\<rparr>, None)"
    by (simp add: process_ticker_def)
next
  fix high assume "dict_get (highs st) ticker = Some high \<and> fgt price high"
  with assms show "process_ticker w dp df token chat_id i ticker st
              = (st\<lparr>highs := dict_set ticker price (highs st), updated_highs := True,
                    trace := trace st @ [Print (NewHigh ticker price high)]\<rparr>, None)"
    by (simp add: process_ticker_def)
next
  assume c: "highs (fst (process_ticker w dp df token chat_id i ticker st)) \<noteq> highs st"
  show "notified (added st (fst (process_ticker w dp df token chat_id i ticker st))) = []"
  proof (cases "dict_get (highs st) ticker")
    case None
    with assms show ?thesis by (simp add: process_ticker_def added_def)
  next
    case (Some high)
    show ?thesis
    proof (cases "fgt price high")
      case True
      with assms Some show ?thesis by (simp add: process_ticker_def added_def)
    next
      case False
      with assms Some have "highs (fst (process_ticker w dp df token chat_id i ticker st)) = highs st"
        by (simp add: process_ticker_def Let_def split: prod.splits sum.splits)
      with c show ?thesis by simp
    qed
  qed
qed

theorem new_high_precedes_alert_witness:
  "fetch_price (provider (flat_world (Finite 50)) 0 ''AAA'') = Inr (Finite 50)
   \<and> dict_get (highs empty_table) ''AAA'' = None
   \<and> process_ticker (flat_world (Finite 50)) (Finite 99) (drop_factor_of (Finite 99)) None None 0
        ''AAA'' empty_table
      = (\<lparr>highs = [(''AAA'', Finite 50)], updated_highs = True,
          trace = [Print (InitialHigh ''AAA'' (Finite 50))]\<rparr>, None)"
proof -
  have f: "fetch_price (provider (flat_world (Finite 50)) 0 ''AAA'') = Inr (Finite 50)"
    by (simp add: flat_world_def quoting_def fetch_price_def float_truthy_def)
  have d: "dict_get (highs empty_table) ''AAA'' = None"
    by (simp add: empty_table_def dict_get_def)
  from new_high_precedes_alert [OF f, of empty_table "Finite 99" "drop_factor_of (Finite 99)" None None] d
  have "process_ticker (flat_world (Finite 50)) (Finite 99) (drop_factor_of (Finite 99)) None None 0
        ''AAA'' empty_table
      = (empty_table\<lparr>highs := dict_set ''AAA'' (Finite 50) (highs empty_table), updated_highs := True,
            trace := trace empty_table @ [Print (InitialHigh ''AAA'' (Finite 50))]\<rparr>, None)"
    by blast
  then show ?thesis
    using f d by (simp add: empty_table_def dict_set_def)
qed

section \<open>Failures of the notification\<close>

text \<open>The three ways a notification fails.\<close>

lemma send_unconfigured:
  "falsy token \<or> falsy chat_id \<Longrightarrow>
     send_telegram_message post token chat_id txt = ([Print TelegramNotConfigured], Inr False)"
  by (simp add: send_telegram_message_def)

lemma send_refused:
  "\<not> falsy token \<Longrightarrow> \<not> falsy chat_id \<Longrightarrow> \<not> ok resp \<Longrightarrow>
     snd (send_telegram_message (Inr resp) token chat_id txt) = Inr False"
  by (simp add: send_telegram_message_def Let_def)

lemma send_raises:
  "\<not> falsy token \<Longrightarrow> \<not> falsy chat_id \<Longrightarrow>
     snd (send_telegram_message (Inl e) token chat_id txt) = Inl e"
  by (simp add: send_telegram_message_def Let_def)

lemma run_loop_raised_files:
  "raised (run_loop w tickers dp st0) \<noteq> None \<Longrightarrow> files_after (run_loop w tickers dp st0) = files w"
  by (simp add: run_loop_def Let_def split: prod.splits option.splits if_splits)

lemma outage_config: "load_config (files outage_world) CONFIG_PATH = Inr ([''BBB'', ''AAA''], Finite 20)"
  by code_simp

lemma outage_highs: "load_highs (files outage_world) HIGHS_PATH = ([], Inr [(''AAA'', Finite 100)])"
  by code_simp

lemma outage_raised: "raised (main outage_world) = Some (RequestException ''ConnectionError'')"
  by code_simp

lemma outage_final:
  "highs (final (main outage_world)) = [(''AAA'', Finite 100), (''BBB'', Finite 50)]
   \<and> updated_highs (final (main outage_world))"
  by code_simp

lemma outage_events:
  "events (main outage_world)
     = [Print (InitialHigh ''BBB'' (Finite 50)),
        Notify (Alert ''AAA'' (Finite 20) (Finite 50) (Finite 100) ''2024-01-01T00:00:00+00:00''),
        Post ''https://api.telegram.org/bottoken/sendMessage'' ''chat''
          (Alert ''AAA'' (Finite 20) (Finite 50) (Finite 100) ''2024-01-01T00:00:00+00:00'')]"
  by code_simp

text \<open>
  Claim C4.  With the credentials missing, or with a response that is not a success,
  \<open>send_telegram_message\<close> returns \<open>False\<close>.  When \<open>requests.post\<close> raises, the
  function raises: nothing catches the exception, in the function or around its call in
  \<open>main\<close>.  In \<open>outage_world\<close> the run ends with that exception in the second
  iteration: the high set for \<open>BBB\<close> in the first iteration is never saved.
\<close>

theorem network_exception_propagates:
  "snd (send_telegram_message no_connection (Some ''token'') (Some ''chat'') txt)
     = Inl (RequestException ''ConnectionError'')
   \<and> raised (main outage_world) = Some (RequestException ''ConnectionError'')
   \<and> highs (final (main outage_world)) = [(''AAA'', Finite 100), (''BBB'', Finite 50)]
   \<and> updated_highs (final (main outage_world))
   \<and> files_after (main outage_world) = files outage_world"
proof -
  have m: "main outage_world
      = run_loop outage_world [''BBB'', ''AAA''] (Finite 20)
          \<lparr>highs = [(''AAA'', Finite 100)], updated_highs = False, trace = []\<rparr>"
    by (rule main_loaded [OF outage_config outage_highs])
  have "raised (main outage_world) \<noteq> None"
    by (simp add: outage_raised)
  then have "files_after (main outage_world) = files outage_world"
    unfolding m by (rule run_loop_raised_files)
  then show ?thesis
    using outage_final
    by (simp add: outage_raised send_telegram_message_def no_connection_def falsy_def)
qed

text \<open>
  Claim C9.  In \<open>outage_world\<close> the high of \<open>BBB\<close> is set in the first iteration, so
  that the table has changed and the flag is set; the exception of the second iteration
  then ends \<open>main\<close> before its last statement: \<open>save_highs\<close> is never called and
  "No high updates." is not printed either.  The last event of the run is the POST.  In
  \<open>first_run\<close>, which reaches the end, the high that was set is saved.
\<close>

theorem changed_but_never_saved:
  "load_highs (files outage_world) HIGHS_PATH = ([], Inr [(''AAA'', Finite 100)])
   \<and> changed [(''AAA'', Finite 100)] (highs (final (main outage_world)))
   \<and> updated_highs (final (main outage_world))
   \<and> \<not> saved outage_world (main outage_world)
   \<and> \<not> untouched outage_world (main outage_world)
   \<and> last (events (main outage_world))
       = Post ''https://api.telegram.org/bottoken/sendMessage'' ''chat''
           (Alert ''AAA'' (Finite 20) (Finite 50) (Finite 100) ''2024-01-01T00:00:00+00:00'')
   \<and> changed [] (highs (final (main first_run)))
   \<and> saved first_run (main first_run)"
proof -
  have c: "changed [(''AAA'', Finite 100)] (highs (final (main outage_world)))"
    using outage_final
    by (auto simp: changed_def dict_get_def intro!: exI [of _ "''BBB''"])
  have n: "\<not> saved outage_world (main outage_world)"
    "\<not> untouched outage_world (main outage_world)"
    by (simp_all add: saved_def untouched_def outage_events)
  have l: "last (events (main outage_world))
       = Post ''https://api.telegram.org/bottoken/sendMessage'' ''chat''
           (Alert ''AAA'' (Finite 20) (Finite 50) (Finite 100) ''2024-01-01T00:00:00+00:00'')"
    by (simp add: outage_events)
  have f: "changed [] (highs (final (main first_run)))"
    by (auto simp: first_run_final changed_def dict_get_def intro!: exI [of _ "''AAA''"])
  from completed_run_saves_iff_changed [OF first_run_config first_run_highs] first_run_raised f
  have s: "saved first_run (main first_run)" by blast
  from c n l f s outage_final show ?thesis
    by (simp add: outage_highs)
qed

section \<open>Fetching a price\<close>

text \<open>
  Claim C8.  An exception raised while the attribute \<open>fast_info\<close> is read is swallowed,
  and so is a quote of zero: the most recent close is returned.  An exception raised by
  \<open>fast_info.get("last_price")\<close> is not: the call stands after the \<open>try\<close>, the
  exception leaves \<open>fetch_price\<close> and the history is never requested.
\<close>

theorem last_price_exception_propagates:
  "fetch_price last_price_raises = Inl (ProviderError ''KeyError'')
   \<and> fetch_price fast_info_raises = Inr (Finite 11)
   \<and> fetch_price zero_quote = Inr (Finite 11)"
  by (simp add: fetch_price_def last_price_raises_def fast_info_raises_def zero_quote_def
      float_truthy_def)

text \<open>What \<open>fetch_price\<close> returns, by the answers of the provider.\<close>

lemma fetch_price_fast:
  assumes "fast_info obj = Inr fi" and "truthy fi" and "get_last_price fi = Inr (Some p)"
    and "float_truthy p"
  shows "fetch_price obj = Inr p"
  using assms by (simp add: fetch_price_def)

lemma fetch_price_fallback:
  assumes "case fast_info obj of
             Inl e \<Rightarrow> True
           | Inr fi \<Rightarrow> \<not> truthy fi \<or> get_last_price fi = Inr None
                        \<or> get_last_price fi = Inr (Some (Finite 0))"
  shows "fetch_price obj =
           (case history obj of
              Inl e \<Rightarrow> Inl e
            | Inr closes \<Rightarrow>
                if closes = [] then Inl (ValueError ''No price data returned.'')
                else Inr (last closes))"
  using assms by (auto simp: fetch_price_def float_truthy_def split: sum.splits)

lemma fetch_price_get_raises:
  assumes "fast_info obj = Inr fi" and "truthy fi" and "get_last_price fi = Inl e"
  shows "fetch_price obj = Inl e"
  using assms by (simp add: fetch_price_def)

section \<open>Validation of the configuration\<close>











text \<open>
  A drop percent given as a string is converted by \<open>float\<close>, which does not skip the
  character 28 as \<open>str.strip()\<close> does.
\<close>

lemma reject_control_in_number:
  "config_of (config_with [JString ''AAA''] (JString (CHR 0x1C # ''50'')))
     = Inl (ValueError ''could not convert string to float'')"
  by code_simp





section \<open>Loading the stored highs\<close>

lemma py_float_errors:
  "py_float v = Inl e \<Longrightarrow> e = TypeError \<or> e = OverflowError \<or> (\<exists>msg. e = ValueError msg)"
  by (cases v) (auto simp: float_of_int_def split: pyfloat.splits option.splits)

lemma load_entries_no_overflow:
  "no_overflow kvs \<Longrightarrow>
     load_entries kvs acc = (warnings_of kvs, Inr (assign_all (converted kvs) acc))"
proof (induction kvs arbitrary: acc)
  case Nil
  then show ?case by (simp add: warnings_of_def converted_def assign_all_def)
next
  case (Cons kv kvs)
  obtain k v where kv: "kv = (k, v)" by (cases kv)
  from Cons.prems kv have rest: "no_overflow kvs" and here: "py_float v \<noteq> Inl OverflowError"
    by (simp_all add: no_overflow_def)
  note IH = Cons.IH [OF rest]
  show ?case
  proof (cases "py_float v")
    case (Inr f)
    with kv IH [of "dict_set (upper k) f acc"] show ?thesis
      by (simp add: warnings_of_def converted_def assign_all_def)
  next
    case (Inl e)
    with here py_float_errors [of v e] have "e = TypeError \<or> (\<exists>msg. e = ValueError msg)"
      by auto
    with Inl kv IH [of acc] show ?thesis
      by (auto simp: warnings_of_def converted_def assign_all_def)
  qed
qed

lemma map_of_assign_all: "map_of (assign_all items d) = map_of (rev items @ d)"
proof (induction items arbitrary: d)
  case Nil
  then show ?case by (simp add: assign_all_def)
next
  case (Cons kf items)
  obtain k f where kf: "kf = (k, f)" by (cases kf)
  have "assign_all (kf # items) d = assign_all items (dict_set k f d)"
    by (simp add: assign_all_def kf)
  then have "map_of (assign_all (kf # items) d) = map_of (rev items @ dict_set k f d)"
    by (simp add: Cons.IH)
  also have "\<dots> = map_of (rev (kf # items) @ d)"
    by (simp add: kf dict_set_def update_conv' map_add_def fun_eq_iff split: option.splits)
  finally show ?case .
qed

lemma mixed_no_overflow: "no_overflow mixed_items"
  by code_simp

lemma mixed_converted:
  "assign_all (converted mixed_items) []
     = [(''AAPL'', Finite 7), (''B'', Finite 1), (''C'', Finite 0), (''D'', Finite (- 3)),
        (''E'', PosInf), (''F'', NaN)]"
  by code_simp

lemma mixed_warnings: "warnings_of mixed_items = [Print (WarnBadHigh ''g'' JNull)]"
  by code_simp

text \<open>
  For a stored object with ASCII keys none of whose values is an integer too large for a
  float, \<open>load_highs\<close> returns the dictionary built by assigning, in the order of the
  file, the float of every convertible value to its uppercased key (a later item replaces
  an earlier one with the same uppercased key), and prints a warning for every other item.
\<close>

lemma load_highs_without_overflow:
  assumes "fs path = Some (Json (JObject kvs))"
    and "no_overflow kvs"
    and "list_all (\<lambda>(k, v). ascii k) kvs"
  shows "load_highs fs path = (warnings_of kvs, Inr (assign_all (converted kvs) []))
       \<and> (\<forall>t. dict_get (assign_all (converted kvs) []) t = map_of (rev (converted kvs)) t)
       \<and> (\<forall>(k, v) \<in> set kvs. \<forall>f. py_float v = Inr f \<longrightarrow> (upper k, f) \<in> set (converted kvs))"
proof (intro conjI)
  show "load_highs fs path = (warnings_of kvs, Inr (assign_all (converted kvs) []))"
    using assms by (simp add: load_highs_def read_json_def load_entries_no_overflow)
  show "\<forall>t. dict_get (assign_all (converted kvs) []) t = map_of (rev (converted kvs)) t"
    by (simp add: dict_get_def map_of_assign_all)
  show "\<forall>(k, v) \<in> set kvs. \<forall>f. py_float v = Inr f \<longrightarrow> (upper k, f) \<in> set (converted kvs)"
    by (force simp: converted_def)
qed

lemma mixed_ascii: "list_all (\<lambda>(k, v). ascii k) mixed_items"
  by code_simp

lemma load_highs_mixed:
  "load_highs (stored_in (JObject mixed_items)) HIGHS_PATH
      = ([Print (WarnBadHigh ''g'' JNull)],
         Inr [(''AAPL'', Finite 7), (''B'', Finite 1), (''C'', Finite 0), (''D'', Finite (- 3)),
              (''E'', PosInf), (''F'', NaN)])"
proof -
  have f: "stored_in (JObject mixed_items) HIGHS_PATH = Some (Json (JObject mixed_items))"
    by (simp add: stored_in_def)
  from load_highs_without_overflow
      [of "stored_in (JObject mixed_items)" HIGHS_PATH mixed_items,
       OF f mixed_no_overflow mixed_ascii]
  have "load_highs (stored_in (JObject mixed_items)) HIGHS_PATH
      = (warnings_of mixed_items, Inr (assign_all (converted mixed_items) []))"
    by blast
  then show ?thesis
    by (simp add: mixed_converted mixed_warnings)
qed

lemma load_highs_huge: "load_highs (stored_in (JObject huge_items)) HIGHS_PATH = ([], Inl OverflowError)"
  by code_simp

text \<open>
  Claim C10.  \<open>load_highs\<close> keeps every value that \<open>float\<close> converts, under its
  uppercased key: numeric strings, booleans, zero, negative numbers, infinities and NaN
  (nothing checks that a high is positive), a later item replacing an earlier one with
  the same uppercased key; a value that \<open>float\<close> rejects with \<open>TypeError\<close> or
  \<open>ValueError\<close> is left out with a warning.  But it does not return such a mapping
  for every stored object: for one with an integer of 401 digits \<open>float\<close> raises
  \<open>OverflowError\<close>, which \<open>load_highs\<close> does not catch, and nothing is returned.
\<close>

theorem load_highs_huge_integer:
  "load_highs (stored_in (JObject huge_items)) HIGHS_PATH = ([], Inl OverflowError)
   \<and> py_float (JInt 1) = Inr (Finite 1)
   \<and> load_highs (stored_in (JObject mixed_items)) HIGHS_PATH
      = ([Print (WarnBadHigh ''g'' JNull)],
         Inr [(''AAPL'', Finite 7), (''B'', Finite 1), (''C'', Finite 0), (''D'', Finite (- 3)),
              (''E'', PosInf), (''F'', NaN)])"
proof -
  have "py_float (JInt 1) = Inr (Finite 1)"
    by code_simp
  with load_highs_huge load_highs_mixed show ?thesis
    by simp
qed

section \<open>Saving and loading again\<close>

lemma update_fresh: "k \<notin> fst ` set al \<Longrightarrow> AList.update k v al = al @ [(k, v)]"
  by (induction al) auto

lemma assign_all_fresh:
  "distinct (map fst (acc @ xs)) \<Longrightarrow> assign_all xs acc = acc @ xs"
proof (induction xs arbitrary: acc)
  case Nil
  then show ?case by (simp add: assign_all_def)
next
  case (Cons kv xs)
  obtain k v where kv: "kv = (k, v)" by (cases kv)
  from Cons.prems kv have fresh: "k \<notin> fst ` set acc"
    by auto
  have step: "assign_all (kv # xs) acc = assign_all xs (acc @ [(k, v)])"
    by (simp add: assign_all_def kv dict_set_def update_fresh [OF fresh])
  from Cons.prems kv have "distinct (map fst ((acc @ [(k, v)]) @ xs))"
    by simp
  then have "assign_all xs (acc @ [(k, v)]) = (acc @ [(k, v)]) @ xs"
    by (rule Cons.IH)
  with step kv show ?case by simp
qed

lemma load_entries_floats:
  "load_entries (map (\<lambda>(k, v). (k, JFloat v)) xs) acc
     = ([], Inr (assign_all (map (\<lambda>(k, v). (upper k, v)) xs) acc))"
  by (induction xs arbitrary: acc) (auto simp: assign_all_def)

text \<open>The items picked for a list of keys, as \<open>ordered_items\<close> picks them.\<close>

lemma picked_keys:
  "set ks \<subseteq> fst ` set M \<Longrightarrow>
     map fst (concat (map (\<lambda>k. case dict_get M k of None \<Rightarrow> [] | Some v \<Rightarrow> [(k, v)]) ks)) = ks"
proof (induction ks)
  case Nil
  then show ?case by simp
next
  case (Cons k ks)
  then have "k \<in> fst ` set M" by simp
  then obtain v where "dict_get M k = Some v"
    by (auto simp: dict_get_def dest: weak_map_of_SomeI)
  with Cons show ?case by simp
qed

lemma picked_items:
  "(k, v) \<in> set (concat (map (\<lambda>k. case dict_get M k of None \<Rightarrow> [] | Some v \<Rightarrow> [(k, v)]) ks))
     \<Longrightarrow> dict_get M k = Some v"
  by (induction ks) (auto split: option.splits)

lemma ordered_keys: "map fst (ordered_items M) = sort (map fst M)"
  unfolding ordered_items_def by (rule picked_keys) simp

lemma ordered_item: "(k, v) \<in> set (ordered_items M) \<Longrightarrow> dict_get M k = Some v"
  unfolding ordered_items_def by (rule picked_items)

lemma ordered_lookup:
  assumes "distinct (map fst M)"
  shows "dict_get (ordered_items M) t = dict_get M t"
proof (cases "dict_get (ordered_items M) t")
  case None
  then have "t \<notin> fst ` set (ordered_items M)"
    by (simp add: dict_get_def map_of_eq_None_iff)
  then have "t \<notin> set (map fst (ordered_items M))" by simp
  then have "t \<notin> fst ` set M" by (simp add: ordered_keys)
  then have "dict_get M t = None" by (simp add: dict_get_def map_of_eq_None_iff)
  with None show ?thesis by simp
next
  case (Some v)
  then have "(t, v) \<in> set (ordered_items M)"
    by (simp add: dict_get_def map_of_SomeD)
  then have "dict_get M t = Some v" by (rule ordered_item)
  with Some show ?thesis by simp
qed

text \<open>
  Claim C5.  For a table whose keys are pairwise different and already uppercase and whose
  values are positive floats, saving the table and loading the file written returns the
  items of the table in the order of their keys: a dictionary equal to the table.
\<close>

theorem save_load_roundtrip:
  assumes "distinct (map fst M)"
    and "\<forall>(k, v) \<in> set M. upper k = k \<and> fgt v (Finite 0)"
  shows "load_highs (save_highs fs path M) path = ([], Inr (ordered_items M))
       \<and> dict_eq (ordered_items M) M
       \<and> (\<forall>t. dict_get (ordered_items M) t = dict_get M t)"
proof (intro conjI allI)
  have in_M: "(k, v) \<in> set M" if "(k, v) \<in> set (ordered_items M)" for k v
    using ordered_item [OF that] by (simp add: dict_get_def map_of_SomeD)
  have key: "upper k = k" if "(k, v) \<in> set (ordered_items M)" for k v
    using in_M [OF that] assms(2) by auto
  have "map (\<lambda>(k, v). (upper k, v)) (ordered_items M) = map (\<lambda>kv. kv) (ordered_items M)"
    by (intro map_cong) (auto simp: key)
  then have up: "map (\<lambda>(k, v). (upper k, v)) (ordered_items M) = ordered_items M"
    by simp
  have "distinct (map fst (ordered_items M))"
    using assms(1) by (simp add: ordered_keys)
  then have "assign_all (ordered_items M) [] = ordered_items M"
    using assign_all_fresh [of "[]" "ordered_items M"] by simp
  then show "load_highs (save_highs fs path M) path = ([], Inr (ordered_items M))"
    by (simp add: load_highs_def save_highs_def read_json_def load_entries_floats up)
  have len: "length (ordered_items M) = length M"
    using arg_cong [OF ordered_keys [of M], of length] by simp
  have "feq v v \<and> dict_get M k = Some v" if "(k, v) \<in> set (ordered_items M)" for k v
  proof -
    from in_M [OF that] assms(2) have "fgt v (Finite 0)" by auto
    then have "v \<noteq> NaN" by (auto simp: fgt_def)
    with ordered_item [OF that] show ?thesis by (simp add: feq_def)
  qed
  then have "list_all (\<lambda>(k, x). case dict_get M k of None \<Rightarrow> False | Some y \<Rightarrow> feq x y)
      (ordered_items M)"
    by (auto simp: list_all_iff)
  with len show "dict_eq (ordered_items M) M"
    by (simp add: dict_eq_def)
  show "dict_get (ordered_items M) t = dict_get M t" for t
    by (rule ordered_lookup [OF assms(1)])
qed

lemma two_highs_ordered:
  "ordered_items two_highs = [(''AAPL'', Finite 190), (''MSFT'', Finite (801 / 2))]"
  by code_simp

lemma two_highs_well_formed:
  "distinct (map fst two_highs)
   \<and> list_all (\<lambda>(k, v). upper k = k \<and> fgt v (Finite 0)) two_highs"
  by code_simp

theorem save_load_roundtrip_witness:
  "distinct (map fst two_highs)
   \<and> list_all (\<lambda>(k, v). upper k = k \<and> fgt v (Finite 0)) two_highs
   \<and> load_highs (save_highs no_files HIGHS_PATH two_highs) HIGHS_PATH
      = ([], Inr [(''AAPL'', Finite 190), (''MSFT'', Finite (801 / 2))])
   \<and> dict_eq [(''AAPL'', Finite 190), (''MSFT'', Finite (801 / 2))] two_highs"
proof -
  from two_highs_well_formed have d: "distinct (map fst two_highs)"
    and p: "\<forall>(k, v) \<in> set two_highs. upper k = k \<and> fgt v (Finite 0)"
    by (simp_all add: list_all_iff)
  from save_load_roundtrip [OF d p, of no_files HIGHS_PATH] two_highs_well_formed
  show ?thesis
    by (simp add: two_highs_ordered)
qed

section \<open>Entries that cannot be loaded\<close>

text \<open>
  Claim C7.  A missing file gives the empty table; a file that does not hold an object
  gives \<open>ValueError\<close>; an entry whose value is not a number is skipped with a warning
  and the rest is loaded.  An entry whose value is an integer too large for a float is
  not skipped: \<open>float\<close> raises \<open>OverflowError\<close>, the \<open>except\<close> clause names
  \<open>TypeError\<close> and \<open>ValueError\<close> only, and \<open>load_highs\<close> raises instead of
  returning the entries that do load.
\<close>

theorem load_highs_overflow_not_caught:
  "load_highs (stored_in (JObject crashing_items)) HIGHS_PATH
     = ([Print (WarnBadHigh ''BBB'' (JString ''x''))], Inl OverflowError)
   \<and> load_highs (stored_in (JObject tolerant_items)) HIGHS_PATH
     = ([Print (WarnBadHigh ''BBB'' (JString ''x''))], Inr [(''AAA'', Finite 10)])
   \<and> load_highs no_files HIGHS_PATH = ([], Inr [])
   \<and> load_highs (stored_in (JArray [])) HIGHS_PATH
     = ([], Inl (ValueError ''highs.json must be a JSON object of {ticker: high}.''))"
  by code_simp

end
